theory Spec2Isabelle
  imports Complex_Main "HOL-Library.Word"
begin

section \<open>JavaScript values and helpers\<close>

text \<open>
  The client library \<^verbatim>\<open>src/lib.js\<close> is embedded function by function. JavaScript
  numbers are modelled by exact rationals (the only non-integral number in the
  source is the literal \<^verbatim>\<open>0.01\<close>); \<^verbatim>\<open>undefined\<close> is \<open>None\<close>; a thrown
  \<^verbatim>\<open>Error\<close> is the left summand of a sum type. \<open>js_value\<close> has the values
  that \<^verbatim>\<open>typeof\<close> tells apart where the source asks; \<^verbatim>\<open>NaN\<close> and the
  infinities, numbers to \<^verbatim>\<open>typeof\<close>, are left out.
\<close>

datatype js_value = JUndefined | JNumber rat | JString string

datatype error =
    NoBucketFound
  | TokenNotFound
  | InvalidAccessKey
  | InvalidSecretKey
  | MustPassCredentials
  | S3ConfigNotDefined
  | ExpectedNumberForLoadedProgress
  | NoCIDReturnedFromRemote
  | InvalidContentLength
  | InvalidDate
  | ContentSizeZero
  | TotalSizeZero
  | PlatformTypeError
  | External string

text \<open>\<^verbatim>\<open>xs[i]\<close>: reading past the end of an array yields \<^verbatim>\<open>undefined\<close>.\<close>

definition js_index :: "'a list \<Rightarrow> nat \<Rightarrow> 'a option" where
  "js_index xs i = (if i < length xs then Some (xs ! i) else None)"

text \<open>\<^verbatim>\<open>a || b\<close> for a possibly undefined string \<open>a\<close>: the empty string is falsy too.\<close>

definition js_or :: "string option \<Rightarrow> string \<Rightarrow> string" where
  "js_or a b = (case a of None \<Rightarrow> b | Some s \<Rightarrow> if s = [] then b else s)"

text \<open>\<^verbatim>\<open>a || b\<close> for a possibly undefined number \<open>a\<close>: zero is falsy.\<close>

definition js_or_num :: "nat option \<Rightarrow> nat \<Rightarrow> nat" where
  "js_or_num a b = (case a of None \<Rightarrow> b | Some n \<Rightarrow> if n = 0 then b else n)"

text \<open>\<^verbatim>\<open>String.prototype.split(d)\<close> for a one-character separator.\<close>

fun js_split :: "char \<Rightarrow> string \<Rightarrow> string list" where
  "js_split d [] = [[]]"
| "js_split d (c # cs) =
     (if c = d then [] # js_split d cs
      else (case js_split d cs of [] \<Rightarrow> [[c]] | w # ws \<Rightarrow> (c # w) # ws))"

definition MAX_STORE_RETRIES :: nat where
  "MAX_STORE_RETRIES = 5"

definition MAX_CONCURRENT_UPLOADS :: nat where
  "MAX_CONCURRENT_UPLOADS = 4"

definition DEFAULT_ENDPOINT :: string where
  "DEFAULT_ENDPOINT = ''https://s3.filebase.com''"

section \<open>Token parsing\<close>

text \<open>
  The base64 decoder \<^verbatim>\<open>Buffer.from(s, 'base64').toString('ascii')\<close> belongs to
  the platform. \<open>parseToken\<close> takes it as its first argument, so every theorem
  about token parsing holds for any decoder. \<open>node_base64_ascii\<close> below is the
  decoder used to run the functions on concrete tokens: it skips characters
  outside the alphabet, stops at the first padding character, and clears the
  top bit of every decoded byte.
\<close>

definition base64_chars :: string where
  "base64_chars = ''ABCDEFGHIJKLMNOPQRSTUVWXYZabcdefghijklmnopqrstuvwxyz0123456789+/''"

fun index_of :: "'a \<Rightarrow> 'a list \<Rightarrow> nat option" where
  "index_of x [] = None"
| "index_of x (y # ys) = (if x = y then Some 0 else map_option Suc (index_of x ys))"

definition unbase64 :: "char \<Rightarrow> nat option" where
  "unbase64 c =
     (if c = CHR ''-'' then Some 62
      else if c = CHR ''_'' then Some 63
      else index_of c base64_chars)"

fun sextets :: "string \<Rightarrow> nat list" where
  "sextets [] = []"
| "sextets (c # cs) =
     (if c = CHR ''='' then []
      else (case unbase64 c of None \<Rightarrow> sextets cs | Some v \<Rightarrow> v # sextets cs))"

fun base64_bytes :: "nat list \<Rightarrow> nat list" where
  "base64_bytes (a # b # c # d # r) =
     (a * 4 + b div 16) # ((b mod 16) * 16 + c div 4) # ((c mod 4) * 64 + d) # base64_bytes r"
| "base64_bytes [a, b, c] = [a * 4 + b div 16, (b mod 16) * 16 + c div 4]"
| "base64_bytes [a, b] = [a * 4 + b div 16]"
| "base64_bytes r = []"

definition node_base64_ascii :: "string \<Rightarrow> string" where
  "node_base64_ascii s = map (\<lambda>b. char_of (b mod 128)) (base64_bytes (sextets s))"

datatype token_input = TokenArray "string list" | TokenString string

record parse_token_result =
  credentials :: "string list"
  bucket :: string

text \<open>
  \<^verbatim>\<open>parseToken\<close>, lines 56-91. The guard \<^verbatim>\<open>typeof token === "undefined" ||
  !Array.isArray(token)\<close> tests the result of \<^verbatim>\<open>split\<close>, which is always an
  array; the branch throwing \<^verbatim>\<open>Token Not Found\<close> is unreachable and has no
  counterpart here.
\<close>

definition parseToken :: "(string \<Rightarrow> string) \<Rightarrow> token_input \<Rightarrow> error + parse_token_result" where
  "parseToken base64_ascii tokenToParse =
     (case tokenToParse of
        TokenArray arr \<Rightarrow>
          (case js_index arr 2 of
             None \<Rightarrow> Inl NoBucketFound
           | Some b \<Rightarrow> Inr \<lparr>credentials = arr, bucket = b\<rparr>)
      | TokenString s \<Rightarrow>
          (let token = js_split CHR '':'' (base64_ascii s);
               bucket = js_index token 2
           in case js_index token 0 of
                None \<Rightarrow> Inl InvalidAccessKey
              | Some accessKey \<Rightarrow>
                  (case js_index token 1 of
                     None \<Rightarrow> Inl InvalidSecretKey
                   | Some secretKey \<Rightarrow>
                       (case bucket of
                          None \<Rightarrow> Inl NoBucketFound
                        | Some b \<Rightarrow> Inr \<lparr>credentials = token, bucket = b\<rparr>))))"

text \<open>
  The fields a token offers: the array itself, or the decoded string split at
  the colons. Field 0 is the access key, field 1 the secret key, field 2 the
  bucket; a field is recoverable when the list is long enough to hold it.
\<close>

definition token_fields :: "(string \<Rightarrow> string) \<Rightarrow> token_input \<Rightarrow> string list" where
  "token_fields base64_ascii t =
     (case t of
        TokenArray arr \<Rightarrow> arr
      | TokenString s \<Rightarrow> js_split CHR '':'' (base64_ascii s))"

section \<open>Client construction\<close>

record s3_credentials =
  accessKeyId :: string
  secretAccessKey :: string

record s3config =
  s3_creds :: "s3_credentials option"
  s3_endpoint :: "string option"
  maxAttempts :: "nat option"
  region :: "string option"
  forcePathStyle :: "bool option"

record client_options =
  opt_endpoint :: "string option"
  opt_token :: "token_input option"
  opt_s3config :: "s3config option"
  opt_bucket :: "string option"

record client =
  c_endpoint :: string
  c_token :: "string list option"
  c_bucket :: "string option"
  c_s3config :: s3config

text \<open>
  The constructor, lines 119-148. The default parameter \<^verbatim>\<open>endpoint =
  DEFAULT_ENDPOINT\<close> applies to an undefined endpoint only. With neither a
  token nor an s3config, \<^verbatim>\<open>parseToken(undefined)\<close> reaches \<^verbatim>\<open>Buffer.from\<close>, which
  rejects \<^verbatim>\<open>undefined\<close> with a \<^verbatim>\<open>TypeError\<close>.
\<close>

definition new_FilebaseClient :: "(string \<Rightarrow> string) \<Rightarrow> client_options \<Rightarrow> error + client" where
  "new_FilebaseClient base64_ascii opts =
     (let endpoint = (case opt_endpoint opts of None \<Rightarrow> DEFAULT_ENDPOINT | Some e \<Rightarrow> e) in
      case (opt_token opts, opt_s3config opts) of
        (None, Some cfg) \<Rightarrow>
          (case s3_creds cfg of
             None \<Rightarrow> Inl MustPassCredentials
           | Some cr \<Rightarrow>
               Inr \<lparr>c_endpoint = endpoint, c_token = None, c_bucket = None, c_s3config = cfg\<rparr>)
      | (None, None) \<Rightarrow> Inl PlatformTypeError
      | (Some token, cfg) \<Rightarrow>
          (case parseToken base64_ascii token of
             Inl e \<Rightarrow> Inl e
           | Inr parsedToken \<Rightarrow>
               Inr \<lparr>c_endpoint = endpoint,
                    c_token = Some (credentials parsedToken),
                    c_bucket = Some (js_or (opt_bucket opts) (bucket parsedToken)),
                    c_s3config =
                      \<lparr>s3_creds = Some
                          \<lparr>accessKeyId = js_or (js_index (credentials parsedToken) 0) [],
                           secretAccessKey = js_or (js_index (credentials parsedToken) 1) []\<rparr>,
                       s3_endpoint = Some endpoint,
                       maxAttempts = Some MAX_STORE_RETRIES,
                       region = Some ''us-east-1'',
                       forcePathStyle = Some True\<rparr>\<rparr>))"

section \<open>Service configuration shared by the static operations\<close>

text \<open>
  The operations are static methods, called as \<^verbatim>\<open>FilebaseClient.storeCar(...)\<close>;
  inside them \<^verbatim>\<open>this\<close> is the class object itself, so \<^verbatim>\<open>this.token\<close> and
  \<^verbatim>\<open>this.bucket\<close> are two properties of the one class object, which every call
  reads and writes. \<open>class_state\<close> is that object.
\<close>

record class_state =
  this_token :: "string list option"
  this_bucket :: "string option"

record service =
  svc_endpoint :: "string option"
  svc_token :: "token_input option"
  svc_s3config :: "s3config option"
  svc_bucket :: "string option"

text \<open>An instance passed as the service (\<^verbatim>\<open>FilebaseClient.storeCar(this, ...)\<close>).\<close>

definition service_of_client :: "client \<Rightarrow> service" where
  "service_of_client c =
     \<lparr>svc_endpoint = Some (c_endpoint c),
      svc_token = map_option TokenArray (c_token c),
      svc_s3config = Some (c_s3config c),
      svc_bucket = c_bucket c\<rparr>"

text \<open>
  The block that opens \<^verbatim>\<open>storeCar\<close> (lines 186-209), \<^verbatim>\<open>status\<close> (326-349) and
  \<^verbatim>\<open>delete\<close> (403-425). The three copies differ in \<^verbatim>\<open>maxAttempts\<close> only, which is
  the second argument. The class object is returned as the call leaves it, also
  when the block throws.
\<close>

definition resolveConfig ::
  "(string \<Rightarrow> string) \<Rightarrow> nat option \<Rightarrow> class_state \<Rightarrow> service
     \<Rightarrow> class_state \<times> (error + s3config)" where
  "resolveConfig base64_ascii attempts this svc =
     (let selectedEndpoint = js_or (svc_endpoint svc) DEFAULT_ENDPOINT in
      case (svc_s3config svc, svc_token svc) of
        (None, Some token) \<Rightarrow>
          (case parseToken base64_ascii token of
             Inl e \<Rightarrow> (this, Inl e)
           | Inr parsedToken \<Rightarrow>
               (this\<lparr>this_token := Some (credentials parsedToken),
                     this_bucket := Some (js_or (svc_bucket svc) (bucket parsedToken))\<rparr>,
                Inr \<lparr>s3_creds = Some
                       \<lparr>accessKeyId = js_or (js_index (credentials parsedToken) 0) [],
                        secretAccessKey = js_or (js_index (credentials parsedToken) 1) []\<rparr>,
                     s3_endpoint = Some selectedEndpoint,
                     maxAttempts = attempts,
                     region = Some ''us-east-1'',
                     forcePathStyle = Some True\<rparr>))
      | (None, None) \<Rightarrow> (this\<lparr>this_bucket := svc_bucket svc\<rparr>, Inl S3ConfigNotDefined)
      | (Some cfg, token) \<Rightarrow> (this\<lparr>this_bucket := svc_bucket svc\<rparr>, Inr cfg))"

section \<open>The remote store and the transport\<close>

type_synonym byte = "8 word"

type_synonym date = int

record head_object_output =
  Metadata :: "(string \<Rightarrow> string option) option"
  ContentLength :: js_value
  LastModified :: "date option"

record upload_params =
  up_client :: s3config
  up_Bucket :: "string option"
  up_Key :: string
  up_Body :: "byte list list"
  up_Metadata :: "(string \<times> string) list"
  up_queueSize :: nat
  up_leavePartsOnError :: bool

text \<open>
  What happens while \<^verbatim>\<open>await parallelUploads3.done()\<close> is pending: the upload
  emits \<^verbatim>\<open>httpUploadProgress\<close> events carrying \<^verbatim>\<open>progress.loaded\<close>, the readable
  stream made from the archive emits its own events by name, and at the end the
  upload resolves or rejects.

  The upload is \<^verbatim>\<open>Upload\<close> of \<^verbatim>\<open>@aws-sdk/lib-storage\<close>, which is not part of the
  sources. The listener of lines 232-239 can throw, and the exception arrives
  in the code of the upload that emitted the event; what the upload does with
  it is not decided by \<^verbatim>\<open>lib.js\<close>. It is the field \<open>up_on_throw\<close> of the run:
  \<open>up_on_throw run e = Some e'\<close> when the upload answers the exception \<open>e\<close> of a
  listener by rejecting \<^verbatim>\<open>done()\<close> with \<open>e'\<close>, and \<open>None\<close> when it swallows the
  exception and goes on. \<open>up_failure\<close> is the outcome of an upload that no
  listener's exception has ended.
\<close>

datatype transport_event = HttpUploadProgress js_value | StreamEvent string

record upload_run =
  up_events :: "transport_event list"
  up_on_throw :: "error \<Rightarrow> error option"
  up_failure :: "error option"

text \<open>Everything a call does that the outside can observe, in order.\<close>

datatype effect =
    Upload upload_params
  | StoredChunk rat
  | Completed
  | HeadObject s3config "string option" string
  | DeleteObject s3config "string option" string
  | BlockstoreClose "(string \<times> byte list) list"

section \<open>storeCar\<close>

record car_storer_options =
  onStoredChunk :: bool
  onComplete :: bool
  maxRetries :: "nat option"

record progress_state =
  storedBytes :: rat
  progressBytes :: rat

text \<open>Lines 230-231: \<^verbatim>\<open>let storedBytes = 0.01; let progressBytes = storedBytes\<close>.\<close>

definition initial_progress :: progress_state where
  "initial_progress = \<lparr>storedBytes = 1 / 100, progressBytes = 1 / 100\<rparr>"

text \<open>The \<^verbatim>\<open>httpUploadProgress\<close> listener, lines 232-239.\<close>

definition httpUploadProgress ::
  "car_storer_options \<Rightarrow> progress_state \<Rightarrow> js_value \<Rightarrow> error + progress_state \<times> effect list" where
  "httpUploadProgress opts st loaded =
     (case loaded of
        JNumber n \<Rightarrow>
          (let pb = n - storedBytes st in
           Inr (\<lparr>storedBytes = n, progressBytes = pb\<rparr>,
                if onStoredChunk opts then [StoredChunk pb] else []))
      | JUndefined \<Rightarrow> Inl ExpectedNumberForLoadedProgress
      | JString s \<Rightarrow> Inl ExpectedNumberForLoadedProgress)"

text \<open>
  The listeners run on the events in order. Line 215 registers \<^verbatim>\<open>onComplete\<close>,
  when supplied, for the stream event named \<^verbatim>\<open>finish\<close>. When the listener of
  \<^verbatim>\<open>httpUploadProgress\<close> throws, it has called no callback and has not assigned
  \<^verbatim>\<open>storedBytes\<close>; the second argument, the run's \<open>up_on_throw\<close>, then says
  whether the upload ends there, rejecting with the error it names, or goes on
  to the next event.
\<close>

fun deliver ::
  "car_storer_options \<Rightarrow> (error \<Rightarrow> error option) \<Rightarrow> progress_state \<Rightarrow> transport_event list
     \<Rightarrow> effect list \<times> error option" where
  "deliver opts on_throw st [] = ([], None)"
| "deliver opts on_throw st (HttpUploadProgress loaded # es) =
     (case httpUploadProgress opts st loaded of
        Inl e \<Rightarrow>
          (case on_throw e of
             Some e' \<Rightarrow> ([], Some e')
           | None \<Rightarrow> deliver opts on_throw st es)
      | Inr (st', fx) \<Rightarrow> (case deliver opts on_throw st' es of (fx', r) \<Rightarrow> (fx @ fx', r)))"
| "deliver opts on_throw st (StreamEvent ev # es) =
     (case deliver opts on_throw st es of
        (fx', r) \<Rightarrow> ((if onComplete opts \<and> ev = ''finish'' then [Completed] else []) @ fx', r))"

text \<open>
  Lines 186-228: up to and including the construction of the upload. The
  \<^verbatim>\<open>await\<close> before \<^verbatim>\<open>parseToken\<close> precedes every write to the class object, and
  from the write to the construction of the upload nothing suspends the call,
  so the upload is given the bucket this call wrote.
\<close>

definition storeCar_begin ::
  "(string \<Rightarrow> string) \<Rightarrow> class_state \<Rightarrow> service \<Rightarrow> byte list list \<Rightarrow> string
     \<Rightarrow> car_storer_options \<Rightarrow> class_state \<times> (error + upload_params)" where
  "storeCar_begin base64_ascii this svc car objectName opts =
     (case resolveConfig base64_ascii
             (Some (js_or_num (maxRetries opts) MAX_STORE_RETRIES)) this svc of
        (this', Inl e) \<Rightarrow> (this', Inl e)
      | (this', Inr cfg) \<Rightarrow>
          (this', Inr \<lparr>up_client = cfg,
                       up_Bucket = this_bucket this',
                       up_Key = objectName,
                       up_Body = car,
                       up_Metadata = [(''import'', ''car'')],
                       up_queueSize = MAX_CONCURRENT_UPLOADS,
                       up_leavePartsOnError = False\<rparr>))"

text \<open>
  Lines 230-241: the listeners, and the wait for the upload. \<^verbatim>\<open>done()\<close> rejects
  with the error the run names for a listener's exception, if it names one;
  otherwise the outcome is the run's own.
\<close>

definition storeCar_await :: "car_storer_options \<Rightarrow> upload_run \<Rightarrow> effect list \<times> error option" where
  "storeCar_await opts run =
     (case deliver opts (up_on_throw run) initial_progress (up_events run) of
        (fx, Some e) \<Rightarrow> (fx, Some e)
      | (fx, None) \<Rightarrow> (fx, up_failure run))"

text \<open>
  Lines 243-253, after the wait: the bucket of the head request is read from
  the class object again.
\<close>

definition storeCar_end ::
  "(s3config \<Rightarrow> string option \<Rightarrow> string \<Rightarrow> error + head_object_output)
     \<Rightarrow> class_state \<Rightarrow> s3config \<Rightarrow> string \<Rightarrow> effect list \<times> (error + string)" where
  "storeCar_end head this cfg objectName =
     ([HeadObject cfg (this_bucket this) objectName],
      case head cfg (this_bucket this) objectName of
        Inl e \<Rightarrow> Inl e
      | Inr carHeader \<Rightarrow>
          (case Metadata carHeader of
             None \<Rightarrow> Inl NoCIDReturnedFromRemote
           | Some m \<Rightarrow>
               (case m ''cid'' of
                  None \<Rightarrow> Inl NoCIDReturnedFromRemote
                | Some c \<Rightarrow> Inr c)))"

text \<open>
  The collaborators of one call: the platform's base64 decoder, the packer of
  \<^verbatim>\<open>ipfs-car\<close>, what the transport does with an upload, and what the remote
  store answers to a head and to a delete request.
\<close>

type_synonym blockstore = "(string \<times> byte list) list"

record import_candidate =
  path :: string
  content :: "byte list"

record pack_args =
  input :: "import_candidate list"
  wrapWithDirectory :: bool
  rawLeaves :: bool
  cidVersion :: nat

record pack_result =
  root :: string
  out :: "byte list list"

record env =
  base64_ascii :: "string \<Rightarrow> string"
  pack :: "pack_args \<Rightarrow> blockstore \<Rightarrow> blockstore \<times> (error + pack_result)"
  transport :: "upload_params \<Rightarrow> upload_run"
  head_object :: "s3config \<Rightarrow> string option \<Rightarrow> string \<Rightarrow> error + head_object_output"
  delete_object :: "s3config \<Rightarrow> string option \<Rightarrow> string \<Rightarrow> error option"

text \<open>
  \<^verbatim>\<open>storeCar\<close>, lines 180-254. The call is suspended at \<^verbatim>\<open>await
  parallelUploads3.done()\<close>, and other calls may run meanwhile; \<open>other\<close> is what
  they do to the class object in that time. The head request reads the class
  object as they left it.
\<close>

definition storeCar_during ::
  "env \<Rightarrow> (class_state \<Rightarrow> class_state) \<Rightarrow> class_state \<Rightarrow> service \<Rightarrow> byte list list \<Rightarrow> string
     \<Rightarrow> car_storer_options \<Rightarrow> class_state \<times> effect list \<times> (error + string)" where
  "storeCar_during E other this svc car objectName opts =
     (case storeCar_begin (base64_ascii E) this svc car objectName opts of
        (this', Inl e) \<Rightarrow> (this', [], Inl e)
      | (this', Inr params) \<Rightarrow>
          (case storeCar_await opts (transport E params) of
             (fx, Some e) \<Rightarrow> (other this', Upload params # fx, Inl e)
           | (fx, None) \<Rightarrow>
               (case storeCar_end (head_object E) (other this') (up_client params) objectName of
                  (fx', r) \<Rightarrow> (other this', Upload params # fx @ fx', r))))"

text \<open>\<^verbatim>\<open>storeCar\<close> with no other call running during the wait.\<close>

definition storeCar ::
  "env \<Rightarrow> class_state \<Rightarrow> service \<Rightarrow> byte list list \<Rightarrow> string \<Rightarrow> car_storer_options
     \<Rightarrow> class_state \<times> effect list \<times> (error + string)" where
  "storeCar E this svc car objectName opts =
     storeCar_during E (\<lambda>this'. this') this svc car objectName opts"

text \<open>The values the \<^verbatim>\<open>onStoredChunk\<close> callback received, in order.\<close>

fun stored_chunks :: "effect list \<Rightarrow> rat list" where
  "stored_chunks [] = []"
| "stored_chunks (StoredChunk v # fx) = v # stored_chunks fx"
| "stored_chunks (e # fx) = stored_chunks fx"

text \<open>The total byte length of an archive given as a sequence of chunks.\<close>

definition car_length :: "byte list list \<Rightarrow> nat" where
  "car_length car = sum_list (map length car)"

section \<open>status and delete\<close>

datatype deal = Deal

record pin =
  pin_cid :: string
  pin_name :: string
  pin_status :: string
  pin_created :: date

record status_result =
  sr_cid :: string
  sr_size :: rat
  sr_deals :: "deal list"
  sr_pin :: pin
  sr_created :: date

text \<open>\<^verbatim>\<open>status\<close>, lines 321-385.\<close>

definition status ::
  "env \<Rightarrow> class_state \<Rightarrow> service \<Rightarrow> string \<Rightarrow> string option
     \<Rightarrow> class_state \<times> effect list \<times> (error + status_result)" where
  "status E this svc cid objectName =
     (case resolveConfig (base64_ascii E) (Some MAX_STORE_RETRIES) this svc of
        (this', Inl e) \<Rightarrow> (this', [], Inl e)
      | (this', Inr cfg) \<Rightarrow>
          (this', [HeadObject cfg (this_bucket this') (js_or objectName cid)],
           case head_object E cfg (this_bucket this') (js_or objectName cid) of
             Inl e \<Rightarrow> Inl e
           | Inr carHeader \<Rightarrow>
               (case Metadata carHeader of
                  None \<Rightarrow> Inl NoCIDReturnedFromRemote
                | Some m \<Rightarrow>
                    (case m ''cid'' of
                       None \<Rightarrow> Inl NoCIDReturnedFromRemote
                     | Some c \<Rightarrow>
                         (case ContentLength carHeader of
                            JUndefined \<Rightarrow> Inl InvalidContentLength
                          | JString s \<Rightarrow> Inl InvalidContentLength
                          | JNumber n \<Rightarrow>
                              (case LastModified carHeader of
                                 None \<Rightarrow> Inl InvalidDate
                               | Some displayDate \<Rightarrow>
                                   Inr \<lparr>sr_cid = c,
                                        sr_size = n,
                                        sr_deals = [],
                                        sr_pin = \<lparr>pin_cid = c, pin_name = c,
                                                  pin_status = ''pinned'',
                                                  pin_created = displayDate\<rparr>,
                                        sr_created = displayDate\<rparr>))))))"

text \<open>\<^verbatim>\<open>delete\<close>, lines 398-435. Its configuration carries no \<^verbatim>\<open>maxAttempts\<close>.\<close>

definition delete_stored ::
  "env \<Rightarrow> class_state \<Rightarrow> service \<Rightarrow> string \<Rightarrow> string option
     \<Rightarrow> class_state \<times> effect list \<times> (error + unit)" where
  "delete_stored E this svc cid objectName =
     (case resolveConfig (base64_ascii E) None this svc of
        (this', Inl e) \<Rightarrow> (this', [], Inl e)
      | (this', Inr cfg) \<Rightarrow>
          (this', [DeleteObject cfg (this_bucket this') (js_or objectName cid)],
           case delete_object E cfg (this_bucket this') (js_or objectName cid) of
             Some e \<Rightarrow> Inl e
           | None \<Rightarrow> Inr ()))"

section \<open>Encoding\<close>

text \<open>
  A \<^verbatim>\<open>Blob\<close> is its bytes, and \<^verbatim>\<open>blob.size\<close> their number; a \<^verbatim>\<open>File\<close> is a blob
  with a name. A CID is modelled by its string form. The blockstore is the
  list of the blocks put into it.
\<close>

record blob =
  bytes :: "byte list"

record js_file = blob +
  name :: string

definition blob_size :: "'a blob_scheme \<Rightarrow> nat" where
  "blob_size b = length (bytes b)"

record packed_car =
  p_cid :: string
  p_carReader :: "nat \<times> string list"
  p_car :: "byte list list"

text \<open>\<^verbatim>\<open>toImportCandidate\<close>, lines 790-800.\<close>

definition toImportCandidate :: "string \<Rightarrow> 'a blob_scheme \<Rightarrow> import_candidate" where
  "toImportCandidate p b = \<lparr>path = p, content = bytes b\<rparr>"

text \<open>
  \<^verbatim>\<open>packCar\<close>, lines 773-779. A caller that passes no blockstore gets a new, empty
  one; here such a caller passes \<open>[]\<close>. The blockstore is returned as the packer
  left it, also when the packer throws.
\<close>

definition packCar ::
  "(pack_args \<Rightarrow> blockstore \<Rightarrow> blockstore \<times> (error + pack_result))
     \<Rightarrow> import_candidate list \<Rightarrow> blockstore \<Rightarrow> bool \<Rightarrow> blockstore \<times> (error + packed_car)" where
  "packCar pk inp blockstore wrap =
     (case pk \<lparr>input = inp, wrapWithDirectory = wrap, rawLeaves = False, cidVersion = 0\<rparr>
             blockstore of
        (bs, Inl e) \<Rightarrow> (bs, Inl e)
      | (bs, Inr r) \<Rightarrow> (bs, Inr \<lparr>p_cid = root r, p_carReader = (1, [root r]), p_car = out r\<rparr>))"

text \<open>\<^verbatim>\<open>encodeBlob\<close>, lines 504-512.\<close>

definition encodeBlob ::
  "(pack_args \<Rightarrow> blockstore \<Rightarrow> blockstore \<times> (error + pack_result))
     \<Rightarrow> 'a blob_scheme \<Rightarrow> blockstore \<Rightarrow> blockstore \<times> (error + packed_car)" where
  "encodeBlob pk b blockstore =
     (if blob_size b = 0 then (blockstore, Inl ContentSizeZero)
      else packCar pk [toImportCandidate ''blob'' b] blockstore False)"

text \<open>
  \<^verbatim>\<open>encodeDirectory\<close>, lines 539-557. The generator handed to the packer adds
  each file's size to \<^verbatim>\<open>size\<close> as the packer draws the files from it; a packer
  that returns has drawn them all. The test of \<^verbatim>\<open>size\<close> follows the packer.
\<close>

definition encodeDirectory ::
  "(pack_args \<Rightarrow> blockstore \<Rightarrow> blockstore \<times> (error + pack_result))
     \<Rightarrow> js_file list \<Rightarrow> blockstore \<Rightarrow> blockstore \<times> (error + packed_car)" where
  "encodeDirectory pk files blockstore =
     (case packCar pk (map (\<lambda>f. toImportCandidate (name f) f) files) blockstore True of
        (bs, Inl e) \<Rightarrow> (bs, Inl e)
      | (bs, Inr packed) \<Rightarrow>
          (if fold (\<lambda>f size. size + blob_size f) files 0 = 0
           then (bs, Inl TotalSizeZero)
           else (bs, Inr packed)))"

section \<open>storeBlob and storeDirectory\<close>

text \<open>The options of a call that passes none: \<^verbatim>\<open>{}\<close>.\<close>

definition no_options :: car_storer_options where
  "no_options = \<lparr>onStoredChunk = False, onComplete = False, maxRetries = None\<rparr>"

text \<open>
  \<^verbatim>\<open>storeBlob\<close>, lines 158-169. The \<^verbatim>\<open>finally\<close> clause closes the blockstore on
  every path; the effect records the blocks it held.
\<close>

definition storeBlob ::
  "env \<Rightarrow> class_state \<Rightarrow> service \<Rightarrow> 'a blob_scheme \<Rightarrow> string option
     \<Rightarrow> class_state \<times> effect list \<times> (error + string)" where
  "storeBlob E this svc b objectName =
     (case encodeBlob (pack E) b [] of
        (bs, Inl e) \<Rightarrow> (this, [BlockstoreClose bs], Inl e)
      | (bs, Inr packed) \<Rightarrow>
          (case storeCar E this svc (p_car packed) (js_or objectName (p_cid packed)) no_options of
             (this', fx, Inl e) \<Rightarrow> (this', fx @ [BlockstoreClose bs], Inl e)
           | (this', fx, Inr storedCid) \<Rightarrow> (this', fx @ [BlockstoreClose bs], Inr storedCid)))"

text \<open>\<^verbatim>\<open>storeDirectory\<close>, lines 266-280.\<close>

definition storeDirectory ::
  "env \<Rightarrow> class_state \<Rightarrow> service \<Rightarrow> js_file list \<Rightarrow> string option
     \<Rightarrow> class_state \<times> effect list \<times> (error + string)" where
  "storeDirectory E this svc filesSource objectName =
     (case encodeDirectory (pack E) filesSource [] of
        (bs, Inl e) \<Rightarrow> (this, [BlockstoreClose bs], Inl e)
      | (bs, Inr packed) \<Rightarrow>
          (let cidString = p_cid packed in
           case storeCar E this svc (p_car packed) (js_or objectName (p_cid packed)) no_options of
             (this', fx, Inl e) \<Rightarrow> (this', fx @ [BlockstoreClose bs], Inl e)
           | (this', fx, Inr storedCid) \<Rightarrow> (this', fx @ [BlockstoreClose bs], Inr cidString)))"

text \<open>The \<^verbatim>\<open>cid\<close> tag of a head answer, when it has one.\<close>

definition meta_cid :: "head_object_output \<Rightarrow> string option" where
  "meta_cid h = (case Metadata h of None \<Rightarrow> None | Some m \<Rightarrow> m ''cid'')"

section \<open>Concrete collaborators\<close>

text \<open>
  Stand-ins on which the operations can be run. \<open>sample_pack\<close> is not the
  packer of \<^verbatim>\<open>ipfs-car\<close>: it puts one block per input file and, when asked to
  wrap, one block for the directory, which is all the examples below need.
  \<open>sample_transport\<close> uploads the archive as a single part, reports its length
  once, and lets the readable stream emit the events a readable stream has; it
  would reject with a listener's exception, which on its one numeric report
  never arises.
  \<open>sample_head\<close> answers every head request with a complete record.
\<close>

definition sample_pack :: "pack_args \<Rightarrow> blockstore \<Rightarrow> blockstore \<times> (error + pack_result)" where
  "sample_pack args bs =
     (let leaves = map (\<lambda>c. (''leaf:'' @ path c, content c)) (input args);
          dir = (if wrapWithDirectory args then [(''dir'', [])] else [])
      in (bs @ leaves @ dir,
          Inr \<lparr>root = (if wrapWithDirectory args then ''dir''
                       else (case leaves of [] \<Rightarrow> ''none'' | l # ls \<Rightarrow> fst l)),
               out = map snd (leaves @ dir)\<rparr>))"

definition sample_transport :: "upload_params \<Rightarrow> upload_run" where
  "sample_transport params =
     \<lparr>up_events =
        [HttpUploadProgress (JNumber (of_nat (car_length (up_Body params)))),
         StreamEvent ''end'', StreamEvent ''close''],
      up_on_throw = (\<lambda>e. Some e),
      up_failure = None\<rparr>"

definition sample_head :: "s3config \<Rightarrow> string option \<Rightarrow> string \<Rightarrow> error + head_object_output" where
  "sample_head cfg bkt key =
     Inr \<lparr>Metadata = Some [''cid'' \<mapsto> ''remote-cid''],
          ContentLength = JNumber 100,
          LastModified = Some 1700000000000\<rparr>"

definition sample_env :: env where
  "sample_env =
     \<lparr>base64_ascii = node_base64_ascii,
      pack = sample_pack,
      transport = sample_transport,
      head_object = sample_head,
      delete_object = (\<lambda>cfg bkt key. None)\<rparr>"

definition fresh_class :: class_state where
  "fresh_class = \<lparr>this_token = None, this_bucket = None\<rparr>"

definition token_service :: "token_input \<Rightarrow> service" where
  "token_service t =
     \<lparr>svc_endpoint = None, svc_token = Some t, svc_s3config = None, svc_bucket = None\<rparr>"

text \<open>
  A service given by a token array, the configuration and the upload it leads
  to, two transports that report a given list of \<^verbatim>\<open>loaded\<close> values, one
  rejecting with a listener's exception and one swallowing it, and a second
  service on another bucket.
\<close>

definition sample_service :: service where
  "sample_service = token_service (TokenArray [''key'', ''secret'', ''bucket-a''])"

definition sample_config :: s3config where
  "sample_config =
     \<lparr>s3_creds = Some \<lparr>accessKeyId = ''key'', secretAccessKey = ''secret''\<rparr>,
      s3_endpoint = Some ''https://s3.filebase.com'',
      maxAttempts = Some 5,
      region = Some ''us-east-1'',
      forcePathStyle = Some True\<rparr>"

definition sample_params :: "byte list list \<Rightarrow> string \<Rightarrow> upload_params" where
  "sample_params car objectName =
     \<lparr>up_client = sample_config, up_Bucket = Some ''bucket-a'', up_Key = objectName,
      up_Body = car, up_Metadata = [(''import'', ''car'')], up_queueSize = 4,
      up_leavePartsOnError = False\<rparr>"

definition sample_class :: class_state where
  "sample_class = \<lparr>this_token = Some [''key'', ''secret'', ''bucket-a''],
                   this_bucket = Some ''bucket-a''\<rparr>"

definition ticks_transport :: "js_value list \<Rightarrow> upload_params \<Rightarrow> upload_run" where
  "ticks_transport ticks params =
     \<lparr>up_events = map HttpUploadProgress ticks @ [StreamEvent ''end'', StreamEvent ''close''],
      up_on_throw = (\<lambda>e. Some e),
      up_failure = None\<rparr>"

definition swallowing_transport :: "js_value list \<Rightarrow> upload_params \<Rightarrow> upload_run" where
  "swallowing_transport ticks params =
     \<lparr>up_events = map HttpUploadProgress ticks @ [StreamEvent ''end'', StreamEvent ''close''],
      up_on_throw = (\<lambda>e. None),
      up_failure = None\<rparr>"

fun loaded_values :: "transport_event list \<Rightarrow> rat list" where
  "loaded_values [] = []"
| "loaded_values (HttpUploadProgress (JNumber n) # es) = n # loaded_values es"
| "loaded_values (e # es) = loaded_values es"

fun numeric_events :: "transport_event list \<Rightarrow> bool" where
  "numeric_events [] = True"
| "numeric_events (HttpUploadProgress v # es) =
     ((case v of JNumber n \<Rightarrow> True | JUndefined \<Rightarrow> False | JString s \<Rightarrow> False)
      \<and> numeric_events es)"
| "numeric_events (StreamEvent ev # es) = numeric_events es"

fun stream_events :: "transport_event list \<Rightarrow> string list" where
  "stream_events [] = []"
| "stream_events (StreamEvent ev # es) = ev # stream_events es"
| "stream_events (e # es) = stream_events es"

definition service_b :: service where
  "service_b = token_service (TokenArray [''key-b'', ''secret-b'', ''bucket-b''])"

section \<open>Token parsing and construction: properties\<close>

lemma js_split_nonempty: "js_split d s \<noteq> []"
  by (induction s) (auto split: list.splits)

lemma parseToken_by_fields:
  "parseToken dec t =
     (if 3 \<le> length (token_fields dec t)
      then Inr \<lparr>credentials = token_fields dec t, bucket = token_fields dec t ! 2\<rparr>
      else if (\<exists>s. t = TokenString s) \<and> length (token_fields dec t) < 2
      then Inl InvalidSecretKey
      else Inl NoBucketFound)"
  using js_split_nonempty[of "CHR '':''"]
  by (cases t)
     (auto simp: parseToken_def token_fields_def js_index_def Let_def split: option.splits)

lemma js_or_Some_empty: "js_or (Some s) [] = s"
  by (simp add: js_or_def)

text \<open>
  C5. A token, array or encoded string, from which the access key, the secret
  key or the bucket cannot be recovered is rejected by \<open>parseToken\<close> with
  \<^verbatim>\<open>Invalid Secret Key\<close> or \<^verbatim>\<open>No Bucket Found\<close>, and the error raised names a
  field that is indeed missing; a token with three fields is accepted; an
  accepted token yields all three fields; and constructing a client from a
  token fails exactly when \<open>parseToken\<close> fails, with the same error. Neither
  function has any effect: they are pure, so no request precedes the error.
  \<^verbatim>\<open>Invalid Access Key\<close> is never raised, since a split string always has a
  first field and an array is only tested for its third.
\<close>

theorem parseToken_three_fields_or_error:
  "(length (token_fields dec t) < 3 \<longrightarrow>
      (parseToken dec t = Inl InvalidSecretKey \<and> js_index (token_fields dec t) 1 = None) \<or>
      (parseToken dec t = Inl NoBucketFound \<and> js_index (token_fields dec t) 2 = None))
   \<and> (3 \<le> length (token_fields dec t) \<longrightarrow> (\<exists>r. parseToken dec t = Inr r))
   \<and> (\<forall>r. parseToken dec t = Inr r \<longrightarrow>
         credentials r = token_fields dec t \<and>
         (\<exists>a s. js_index (credentials r) 0 = Some a \<and> js_index (credentials r) 1 = Some s) \<and>
         js_index (credentials r) 2 = Some (bucket r))
   \<and> (opt_token opts = Some t \<longrightarrow>
         (case parseToken dec t of
            Inl e \<Rightarrow> new_FilebaseClient dec opts = Inl e
          | Inr r \<Rightarrow>
              (\<exists>c. new_FilebaseClient dec opts = Inr c \<and>
                   c_token c = Some (credentials r) \<and>
                   s3_creds (c_s3config c) =
                     Some \<lparr>accessKeyId = credentials r ! 0,
                           secretAccessKey = credentials r ! 1\<rparr>)))"
proof (cases "3 \<le> length (token_fields dec t)")
  case True
  then have p: "parseToken dec t =
      Inr \<lparr>credentials = token_fields dec t, bucket = token_fields dec t ! 2\<rparr>"
    by (simp add: parseToken_by_fields)
  from True p show ?thesis
    by (auto simp: js_index_def new_FilebaseClient_def js_or_Some_empty Let_def)
next
  case False
  then have "parseToken dec t = Inl InvalidSecretKey \<and> length (token_fields dec t) < 2
      \<or> parseToken dec t = Inl NoBucketFound"
    by (simp add: parseToken_by_fields)
  with False show ?thesis
    by (auto simp: js_index_def new_FilebaseClient_def Let_def)
qed

text \<open>The tokens \<^verbatim>\<open>a:b\<close> and \<^verbatim>\<open>a:b:c\<close>, base64-encoded.\<close>

theorem parseToken_three_fields_or_error_witness:
  "parseToken node_base64_ascii (TokenString ''YTpi'') = Inl NoBucketFound
   \<and> new_FilebaseClient node_base64_ascii
        \<lparr>opt_endpoint = None, opt_token = Some (TokenString ''YTpi''),
         opt_s3config = None, opt_bucket = None\<rparr> = Inl NoBucketFound
   \<and> parseToken node_base64_ascii (TokenString ''YTpiOmM='') =
        Inr \<lparr>credentials = [''a'', ''b'', ''c''], bucket = ''c''\<rparr>
   \<and> (\<exists>c. new_FilebaseClient node_base64_ascii
             \<lparr>opt_endpoint = None, opt_token = Some (TokenString ''YTpiOmM=''),
              opt_s3config = None, opt_bucket = None\<rparr> = Inr c
          \<and> c_token c = Some [''a'', ''b'', ''c'']
          \<and> s3_creds (c_s3config c) = Some \<lparr>accessKeyId = ''a'', secretAccessKey = ''b''\<rparr>)"
proof -
  let ?short = "\<lparr>opt_endpoint = None, opt_token = Some (TokenString ''YTpi''),
                 opt_s3config = None, opt_bucket = None\<rparr>"
  let ?full = "\<lparr>opt_endpoint = None, opt_token = Some (TokenString ''YTpiOmM=''),
                opt_s3config = None, opt_bucket = None\<rparr>"
  have short: "token_fields node_base64_ascii (TokenString ''YTpi'') = [''a'', ''b'']"
    by code_simp
  have full: "token_fields node_base64_ascii (TokenString ''YTpiOmM='') = [''a'', ''b'', ''c'']"
    by code_simp
  have a: "parseToken node_base64_ascii (TokenString ''YTpi'') = Inl NoBucketFound"
    using parseToken_three_fields_or_error [of node_base64_ascii "TokenString ''YTpi''" ?short]
    by (simp add: short js_index_def)
  have b: "new_FilebaseClient node_base64_ascii ?short = Inl NoBucketFound"
    using parseToken_three_fields_or_error [of node_base64_ascii "TokenString ''YTpi''" ?short]
    by (simp add: a)
  obtain r where r: "parseToken node_base64_ascii (TokenString ''YTpiOmM='') = Inr r"
    using parseToken_three_fields_or_error [of node_base64_ascii "TokenString ''YTpiOmM=''" ?full]
    by (auto simp: full)
  have "credentials r = [''a'', ''b'', ''c''] \<and> bucket r = ''c''"
    using parseToken_three_fields_or_error [of node_base64_ascii "TokenString ''YTpiOmM=''" ?full] r
    by (auto simp: full js_index_def)
  then have r': "r = \<lparr>credentials = [''a'', ''b'', ''c''], bucket = ''c''\<rparr>"
    by (cases r) simp
  have d: "\<exists>c. new_FilebaseClient node_base64_ascii ?full = Inr c
          \<and> c_token c = Some [''a'', ''b'', ''c'']
          \<and> s3_creds (c_s3config c) = Some \<lparr>accessKeyId = ''a'', secretAccessKey = ''b''\<rparr>"
    using parseToken_three_fields_or_error [of node_base64_ascii "TokenString ''YTpiOmM=''" ?full]
    by (simp add: r r' full)
  from a b r r' d show ?thesis by simp
qed

section \<open>status: properties\<close>

text \<open>
  C7. When the configuration resolves and the remote store answers the head
  request, \<open>status\<close> fails with \<^verbatim>\<open>No CID Returned from Remote\<close>, \<^verbatim>\<open>Invalid
  Content Length\<close> or \<^verbatim>\<open>Invalid Date\<close> if the answer lacks the \<^verbatim>\<open>cid\<close> tag, a
  numeric content length or the last-modified date; otherwise it returns the
  record with that cid, that size, no deals, and a pin with status \<^verbatim>\<open>pinned\<close>
  created at the last-modified date.
\<close>

theorem status_normalized_or_incomplete:
  assumes "resolveConfig (base64_ascii E) (Some MAX_STORE_RETRIES) this svc = (this', Inr cfg)"
    and "head_object E cfg (this_bucket this') (js_or objectName cid) = Inr h"
  shows "(meta_cid h = None \<or> (\<forall>n. ContentLength h \<noteq> JNumber n) \<or> LastModified h = None \<longrightarrow>
            snd (snd (status E this svc cid objectName)) \<in>
              {Inl NoCIDReturnedFromRemote, Inl InvalidContentLength, Inl InvalidDate})
         \<and> (\<forall>c n d. meta_cid h = Some c \<and> ContentLength h = JNumber n \<and> LastModified h = Some d \<longrightarrow>
              snd (snd (status E this svc cid objectName)) =
                Inr \<lparr>sr_cid = c, sr_size = n, sr_deals = [],
                     sr_pin = \<lparr>pin_cid = c, pin_name = c, pin_status = ''pinned'',
                               pin_created = d\<rparr>,
                     sr_created = d\<rparr>)"
  using assms
  by (auto simp: status_def meta_cid_def split: option.splits js_value.splits)

text \<open>A complete head answer, and one without the date.\<close>

theorem status_normalized_or_incomplete_witness:
  "snd (snd (status sample_env fresh_class (token_service (TokenArray [''k'', ''s'', ''b'']))
               ''QmRoot'' None)) =
     Inr \<lparr>sr_cid = ''remote-cid'', sr_size = 100, sr_deals = [],
          sr_pin = \<lparr>pin_cid = ''remote-cid'', pin_name = ''remote-cid'',
                    pin_status = ''pinned'', pin_created = 1700000000000\<rparr>,
          sr_created = 1700000000000\<rparr>
   \<and> snd (snd (status
        (sample_env\<lparr>head_object := \<lambda>cfg bkt key.
            Inr \<lparr>Metadata = Some [''cid'' \<mapsto> ''remote-cid''],
                 ContentLength = JNumber 100, LastModified = None\<rparr>\<rparr>)
        fresh_class (token_service (TokenArray [''k'', ''s'', ''b''])) ''QmRoot'' None))
     \<in> {Inl NoCIDReturnedFromRemote, Inl InvalidContentLength, Inl InvalidDate}"
proof -
  let ?svc = "token_service (TokenArray [''k'', ''s'', ''b''])"
  let ?cfg = "\<lparr>s3_creds = Some \<lparr>accessKeyId = ''k'', secretAccessKey = ''s''\<rparr>,
               s3_endpoint = Some DEFAULT_ENDPOINT, maxAttempts = Some MAX_STORE_RETRIES,
               region = Some ''us-east-1'', forcePathStyle = Some True\<rparr>"
  let ?cls = "\<lparr>this_token = Some [''k'', ''s'', ''b''], this_bucket = Some ''b''\<rparr>"
  let ?late = "\<lparr>Metadata = Some [''cid'' \<mapsto> ''remote-cid''],
                ContentLength = JNumber 100, LastModified = None\<rparr>"
  let ?E = "sample_env\<lparr>head_object := \<lambda>cfg bkt key. Inr ?late\<rparr>"
  have res: "resolveConfig node_base64_ascii (Some MAX_STORE_RETRIES) fresh_class ?svc
               = (?cls, Inr ?cfg)"
    by (simp add: resolveConfig_def token_service_def parseToken_def js_index_def js_or_def
        fresh_class_def)
  have res1: "resolveConfig (base64_ascii sample_env) (Some MAX_STORE_RETRIES) fresh_class ?svc
               = (?cls, Inr ?cfg)"
    using res by (simp add: sample_env_def)
  have res2: "resolveConfig (base64_ascii ?E) (Some MAX_STORE_RETRIES) fresh_class ?svc
               = (?cls, Inr ?cfg)"
    using res by (simp add: sample_env_def)
  have h1: "head_object sample_env ?cfg (this_bucket ?cls) (js_or None ''QmRoot'')
              = Inr \<lparr>Metadata = Some [''cid'' \<mapsto> ''remote-cid''],
                     ContentLength = JNumber 100, LastModified = Some 1700000000000\<rparr>"
    by (simp add: sample_env_def sample_head_def)
  have h2: "head_object ?E ?cfg (this_bucket ?cls) (js_or None ''QmRoot'') = Inr ?late"
    by simp
  from status_normalized_or_incomplete [OF res1 h1]
  have a: "snd (snd (status sample_env fresh_class ?svc ''QmRoot'' None)) =
     Inr \<lparr>sr_cid = ''remote-cid'', sr_size = 100, sr_deals = [],
          sr_pin = \<lparr>pin_cid = ''remote-cid'', pin_name = ''remote-cid'',
                    pin_status = ''pinned'', pin_created = 1700000000000\<rparr>,
          sr_created = 1700000000000\<rparr>"
    by (simp add: meta_cid_def)
  from status_normalized_or_incomplete [OF res2 h2]
  have b: "snd (snd (status ?E fresh_class ?svc ''QmRoot'' None))
     \<in> {Inl NoCIDReturnedFromRemote, Inl InvalidContentLength, Inl InvalidDate}"
    by (simp add: meta_cid_def)
  from a b show ?thesis by simp
qed

section \<open>storeCar: the head request and the value returned\<close>

lemma storeCar_during_unfold:
  "storeCar_during E other this svc car objectName opts =
     (case storeCar_begin (base64_ascii E) this svc car objectName opts of
        (this', Inl e) \<Rightarrow> (this', [], Inl e)
      | (this', Inr params) \<Rightarrow>
          (case storeCar_await opts (transport E params) of
             (fx, Some e) \<Rightarrow> (other this', Upload params # fx, Inl e)
           | (fx, None) \<Rightarrow>
               (other this',
                Upload params # fx @
                  [HeadObject (up_client params) (this_bucket (other this')) objectName],
                case head_object E (up_client params) (this_bucket (other this')) objectName of
                  Inl e \<Rightarrow> Inl e
                | Inr h \<Rightarrow> (case meta_cid h of
                              None \<Rightarrow> Inl NoCIDReturnedFromRemote
                            | Some c \<Rightarrow> Inr c))))"
  by (auto simp: storeCar_during_def storeCar_end_def meta_cid_def
      split: prod.splits sum.splits option.splits)

lemma storeCar_unfold:
  "storeCar E this svc car objectName opts =
     (case storeCar_begin (base64_ascii E) this svc car objectName opts of
        (this', Inl e) \<Rightarrow> (this', [], Inl e)
      | (this', Inr params) \<Rightarrow>
          (case storeCar_await opts (transport E params) of
             (fx, Some e) \<Rightarrow> (this', Upload params # fx, Inl e)
           | (fx, None) \<Rightarrow>
               (this', Upload params # fx @ [HeadObject (up_client params) (up_Bucket params) objectName],
                case head_object E (up_client params) (up_Bucket params) objectName of
                  Inl e \<Rightarrow> Inl e
                | Inr h \<Rightarrow> (case meta_cid h of
                              None \<Rightarrow> Inl NoCIDReturnedFromRemote
                            | Some c \<Rightarrow> Inr c))))"
  by (auto simp: storeCar_def storeCar_during_def storeCar_end_def storeCar_begin_def meta_cid_def
      split: prod.splits sum.splits option.splits)

lemma sample_begin:
  "storeCar_begin dec fresh_class sample_service car objectName
      \<lparr>onStoredChunk = c, onComplete = d, maxRetries = None\<rparr>
     = (sample_class, Inr (sample_params car objectName))"
  by (simp add: storeCar_begin_def resolveConfig_def sample_service_def token_service_def
      parseToken_def js_index_def js_or_def js_or_num_def fresh_class_def sample_class_def
      sample_params_def sample_config_def MAX_STORE_RETRIES_def MAX_CONCURRENT_UPLOADS_def
      DEFAULT_ENDPOINT_def)

lemma sample_await:
  "storeCar_await \<lparr>onStoredChunk = True, onComplete = d, maxRetries = None\<rparr>
      (sample_transport (sample_params [[1, 2, 3]] objectName))
     = ([StoredChunk (299 / 100)], None)"
  by (simp add: storeCar_await_def sample_transport_def sample_params_def car_length_def
      httpUploadProgress_def initial_progress_def Let_def)

text \<open>
  C4. When the upload has been built and all its parts have succeeded, the
  wait ending without an error, \<open>storeCar\<close> issues a head request for the object key as
  its last effect, whatever other calls did meanwhile. If the answer has no
  \<^verbatim>\<open>cid\<close> tag the call fails with \<^verbatim>\<open>No CID Returned from Remote\<close>; if it has
  one the call returns that tag. The object name, which is where a locally
  computed root would arrive, has no part in the value returned.
\<close>

theorem storeCar_returns_remote_cid:
  assumes "storeCar_begin (base64_ascii E) this svc car objectName opts = (this', Inr params)"
    and "storeCar_await opts (transport E params) = (fx, None)"
  shows "fst (snd (storeCar_during E other this svc car objectName opts)) =
           Upload params # fx @
             [HeadObject (up_client params) (this_bucket (other this')) objectName]
         \<and> (\<forall>h. head_object E (up_client params) (this_bucket (other this')) objectName = Inr h
                \<and> meta_cid h = None \<longrightarrow>
              snd (snd (storeCar_during E other this svc car objectName opts))
                = Inl NoCIDReturnedFromRemote)
         \<and> (\<forall>h c. head_object E (up_client params) (this_bucket (other this')) objectName = Inr h
                \<and> meta_cid h = Some c \<longrightarrow>
              snd (snd (storeCar_during E other this svc car objectName opts)) = Inr c)"
  using assms by (simp add: storeCar_during_unfold)

text \<open>The same on a three-byte archive, once with and once without the tag.\<close>

theorem storeCar_returns_remote_cid_witness:
  "storeCar sample_env fresh_class sample_service [[1, 2, 3]] ''obj''
      \<lparr>onStoredChunk = True, onComplete = True, maxRetries = None\<rparr>
     = (sample_class,
        [Upload (sample_params [[1, 2, 3]] ''obj''), StoredChunk (299 / 100),
         HeadObject sample_config (Some ''bucket-a'') ''obj''],
        Inr ''remote-cid'')
   \<and> snd (snd (storeCar
        (sample_env\<lparr>head_object := \<lambda>cfg bkt key.
            Inr \<lparr>Metadata = Some Map.empty, ContentLength = JNumber 100,
                 LastModified = Some 0\<rparr>\<rparr>)
        fresh_class sample_service [[1, 2, 3]] ''obj''
        \<lparr>onStoredChunk = True, onComplete = True, maxRetries = None\<rparr>))
     = Inl NoCIDReturnedFromRemote"
proof -
  let ?opts = "\<lparr>onStoredChunk = True, onComplete = True, maxRetries = None\<rparr>"
  let ?bare = "\<lparr>Metadata = Some Map.empty, ContentLength = JNumber 100, LastModified = Some 0\<rparr>"
  let ?E = "sample_env\<lparr>head_object := \<lambda>cfg bkt key. Inr ?bare\<rparr>"
  have b1: "storeCar_begin (base64_ascii sample_env) fresh_class sample_service [[1, 2, 3]]
              ''obj'' ?opts = (sample_class, Inr (sample_params [[1, 2, 3]] ''obj''))"
    by (rule sample_begin)
  have b2: "storeCar_begin (base64_ascii ?E) fresh_class sample_service [[1, 2, 3]]
              ''obj'' ?opts = (sample_class, Inr (sample_params [[1, 2, 3]] ''obj''))"
    by (rule sample_begin)
  have a1: "storeCar_await ?opts (transport sample_env (sample_params [[1, 2, 3]] ''obj''))
              = ([StoredChunk (299 / 100)], None)"
    using sample_await by (simp add: sample_env_def)
  have a2: "storeCar_await ?opts (transport ?E (sample_params [[1, 2, 3]] ''obj''))
              = ([StoredChunk (299 / 100)], None)"
    using sample_await by (simp add: sample_env_def)
  have c1: "fst (storeCar sample_env fresh_class sample_service [[1, 2, 3]] ''obj'' ?opts)
              = sample_class"
    by (simp add: storeCar_unfold b1 a1)
  from storeCar_returns_remote_cid [OF b1 a1, of "\<lambda>this'. this'"]
  have r1: "snd (storeCar sample_env fresh_class sample_service [[1, 2, 3]] ''obj'' ?opts)
     = ([Upload (sample_params [[1, 2, 3]] ''obj''), StoredChunk (299 / 100),
         HeadObject sample_config (Some ''bucket-a'') ''obj''],
        Inr ''remote-cid'')"
    by (simp add: storeCar_def sample_env_def sample_head_def meta_cid_def sample_params_def
        sample_class_def prod_eq_iff)
  from storeCar_returns_remote_cid [OF b2 a2, of "\<lambda>this'. this'"]
  have r2: "snd (snd (storeCar ?E fresh_class sample_service [[1, 2, 3]] ''obj'' ?opts))
     = Inl NoCIDReturnedFromRemote"
    by (simp add: storeCar_def meta_cid_def)
  from c1 r1 r2 show ?thesis
    by (simp add: prod_eq_iff)
qed

lemma storeCar_Inr_remote:
  assumes "storeCar E this svc car key opts = (this', fx, Inr v)"
  shows "\<exists>cfg bkt h. head_object E cfg bkt key = Inr h \<and> meta_cid h = Some v"
  using assms
  by (auto simp: storeCar_unfold split: prod.splits sum.splits option.splits)

section \<open>storeCar: progress reports\<close>

lemmas run_simps =
  storeCar_await_def httpUploadProgress_def initial_progress_def Let_def car_length_def
  sample_transport_def ticks_transport_def swallowing_transport_def sample_head_def meta_cid_def

lemma sample_storeCar:
  "storeCar (sample_env\<lparr>transport := tr\<rparr>) fresh_class sample_service car objectName
      \<lparr>onStoredChunk = c, onComplete = d, maxRetries = None\<rparr> =
     (case storeCar_await \<lparr>onStoredChunk = c, onComplete = d, maxRetries = None\<rparr>
             (tr (sample_params car objectName)) of
        (fx, Some e) \<Rightarrow> (sample_class, Upload (sample_params car objectName) # fx, Inl e)
      | (fx, None) \<Rightarrow>
          (sample_class,
           Upload (sample_params car objectName) # fx @
             [HeadObject sample_config (Some ''bucket-a'') objectName],
           Inr ''remote-cid''))"
  by (simp add: storeCar_unfold sample_begin sample_env_def sample_head_def meta_cid_def
      sample_params_def split: prod.splits option.splits)

lemma sample_env_transport: "sample_env\<lparr>transport := sample_transport\<rparr> = sample_env"
  by (simp add: sample_env_def)

lemma stored_chunks_append: "stored_chunks (xs @ ys) = stored_chunks xs @ stored_chunks ys"
  by (induction xs rule: stored_chunks.induct) simp_all

text \<open>
  On numeric reports the values handed to \<^verbatim>\<open>onStoredChunk\<close> telescope: their
  sum is the last value reported less the initial \<^verbatim>\<open>storedBytes\<close>, which is
  \<open>1 / 100\<close> when the upload starts.
\<close>

lemma deliver_numeric_sum:
  assumes "numeric_events es" and "onStoredChunk opts"
  shows "snd (deliver opts on_throw st es) = None \<and>
         sum_list (stored_chunks (fst (deliver opts on_throw st es))) =
           last (storedBytes st # loaded_values es) - storedBytes st"
  using assms(1)
proof (induction es arbitrary: st)
  case Nil
  then show ?case by simp
next
  case (Cons e es)
  from Cons.prems have rest: "numeric_events es"
    by (cases e) simp_all
  show ?case
  proof (cases e)
    case (HttpUploadProgress v)
    with Cons.prems obtain n where v: "v = JNumber n"
      by (cases v) simp_all
    let ?st = "\<lparr>storedBytes = n, progressBytes = n - storedBytes st\<rparr>"
    obtain fx r where d: "deliver opts on_throw ?st es = (fx, r)"
      by (cases "deliver opts on_throw ?st es")
    from Cons.IH [OF rest, of ?st] d
    have ih: "r = None" "sum_list (stored_chunks fx) = last (n # loaded_values es) - n"
      by simp_all
    have "deliver opts on_throw st (e # es) = (StoredChunk (n - storedBytes st) # fx, r)"
      using d assms(2) HttpUploadProgress v by (simp add: httpUploadProgress_def Let_def)
    with ih HttpUploadProgress v show ?thesis
      by simp
  next
    case (StreamEvent ev)
    obtain fx r where d: "deliver opts on_throw st es = (fx, r)"
      by (cases "deliver opts on_throw st es")
    from Cons.IH [OF rest, of st] d
    have ih: "r = None"
      "sum_list (stored_chunks fx) = last (storedBytes st # loaded_values es) - storedBytes st"
      by simp_all
    have "stored_chunks (fst (deliver opts on_throw st (e # es))) = stored_chunks fx"
      using d StreamEvent by (simp add: stored_chunks_append)
    moreover have "snd (deliver opts on_throw st (e # es)) = r"
      using d StreamEvent by simp
    ultimately show ?thesis
      using ih StreamEvent by simp
  qed
qed

text \<open>
  C1. The claim: when the transport reports numeric, non-decreasing cumulative
  values, no value handed to \<^verbatim>\<open>onStoredChunk\<close> is negative and the values sum
  to the byte length of the archive. The code started on its own constant
  \<^verbatim>\<open>0.01\<close> does otherwise. A three-byte archive whose upload reports \<open>3\<close> once
  hands \<open>299 / 100\<close> to the callback, less than the three bytes sent; and when
  the first report is \<open>0\<close> the callback receives \<open>- (1 / 100)\<close>.
\<close>

theorem progress_sum_misses_total:
  "stored_chunks (fst (snd (storeCar sample_env fresh_class sample_service [[1, 2, 3]] ''obj''
      \<lparr>onStoredChunk = True, onComplete = False, maxRetries = None\<rparr>))) = [299 / 100]
   \<and> sum_list (stored_chunks (fst (snd (storeCar sample_env fresh_class sample_service
        [[1, 2, 3]] ''obj'' \<lparr>onStoredChunk = True, onComplete = False, maxRetries = None\<rparr>))))
       \<noteq> of_nat (car_length [[1, 2, 3 :: byte]])
   \<and> stored_chunks (fst (snd (storeCar
        (sample_env\<lparr>transport := ticks_transport [JNumber 0, JNumber 3]\<rparr>)
        fresh_class sample_service [[1, 2, 3]] ''obj''
        \<lparr>onStoredChunk = True, onComplete = False, maxRetries = None\<rparr>))) = [- (1 / 100), 3]"
  using sample_storeCar [of sample_transport "[[1, 2, 3]]" "''obj''" True False]
  by (simp add: sample_storeCar run_simps sample_env_transport sample_params_def)

lemma non_number_throws:
  assumes "\<forall>n. loaded \<noteq> JNumber n"
  shows "httpUploadProgress opts st loaded = Inl ExpectedNumberForLoadedProgress"
  using assms by (cases loaded) (simp_all add: httpUploadProgress_def)

lemma deliver_rejects_at_non_number:
  assumes "\<forall>n. loaded \<noteq> JNumber n"
    and "on_throw ExpectedNumberForLoadedProgress = Some e'"
  shows "deliver opts on_throw st (pre @ HttpUploadProgress loaded # post) =
           (fst (deliver opts on_throw st pre), Some e')"
proof (induction pre arbitrary: st)
  case Nil
  from assms show ?case
    by (simp add: non_number_throws)
next
  case (Cons ev pre)
  show ?case
  proof (cases ev)
    case (HttpUploadProgress v)
    then show ?thesis
      using Cons.IH assms(2)
      by (cases v) (simp_all add: httpUploadProgress_def Let_def split: prod.splits)
  next
    case (StreamEvent x)
    then show ?thesis
      using Cons.IH by (simp split: prod.splits)
  qed
qed

lemma deliver_skips_non_number:
  assumes "\<forall>n. loaded \<noteq> JNumber n"
    and "on_throw ExpectedNumberForLoadedProgress = None"
  shows "deliver opts on_throw st (pre @ HttpUploadProgress loaded # post) =
           deliver opts on_throw st (pre @ post)"
proof (induction pre arbitrary: st)
  case Nil
  from assms show ?case
    by (simp add: non_number_throws)
next
  case (Cons ev pre)
  show ?case
  proof (cases ev)
    case (HttpUploadProgress v)
    then show ?thesis
      using Cons.IH assms(2)
      by (cases v) (simp_all add: httpUploadProgress_def Let_def split: prod.splits)
  next
    case (StreamEvent x)
    then show ?thesis
      using Cons.IH by (simp split: prod.splits)
  qed
qed

text \<open>
  C2, as stated, fails on a decreasing report: after \<open>10\<close> the report \<open>5\<close> is
  not rejected, the callback receives \<open>- 5\<close>, and the upload goes on to the
  head request and succeeds.
\<close>

theorem decreasing_progress_reaches_callback:
  "storeCar (sample_env\<lparr>transport := ticks_transport [JNumber 10, JNumber 5]\<rparr>)
      fresh_class sample_service [[1, 2, 3]] ''obj''
      \<lparr>onStoredChunk = True, onComplete = False, maxRetries = None\<rparr>
     = (sample_class,
        [Upload (sample_params [[1, 2, 3]] ''obj''), StoredChunk (999 / 100), StoredChunk (- 5),
         HeadObject sample_config (Some ''bucket-a'') ''obj''],
        Inr ''remote-cid'')"
  by (simp add: sample_storeCar run_simps)

text \<open>
  C2, amended. A report whose \<^verbatim>\<open>loaded\<close> is not a number makes the listener
  throw \<^verbatim>\<open>Expected Number for Loaded Progress\<close> without calling
  \<^verbatim>\<open>onStoredChunk\<close> for it. What follows is the upload's doing. If the upload
  answers a listener's exception by rejecting, \<open>storeCar\<close> fails with the
  rejection, having called the callback for the reports before it only, and
  issues no head request. If the upload swallows the exception, the wait goes
  as if the report had not been made. A numeric report is never rejected:
  the callback, when supplied, receives the difference to the previous value,
  whatever its sign.
\<close>

theorem non_numeric_progress_throws:
  assumes "storeCar_begin (base64_ascii E) this svc car objectName opts = (this', Inr params)"
    and "up_events (transport E params) = pre @ HttpUploadProgress loaded # post"
    and "\<forall>n. loaded \<noteq> JNumber n"
  shows "httpUploadProgress opts st loaded = Inl ExpectedNumberForLoadedProgress
       \<and> (\<forall>e'. up_on_throw (transport E params) ExpectedNumberForLoadedProgress = Some e' \<longrightarrow>
             storeCar E this svc car objectName opts =
               (this',
                Upload params #
                  fst (deliver opts (up_on_throw (transport E params)) initial_progress pre),
                Inl e'))
       \<and> (up_on_throw (transport E params) ExpectedNumberForLoadedProgress = None \<longrightarrow>
             storeCar_await opts (transport E params) =
               storeCar_await opts ((transport E params)\<lparr>up_events := pre @ post\<rparr>))
       \<and> (\<forall>n. httpUploadProgress opts st (JNumber n) =
             Inr (\<lparr>storedBytes = n, progressBytes = n - storedBytes st\<rparr>,
                  if onStoredChunk opts then [StoredChunk (n - storedBytes st)] else []))"
proof -
  let ?run = "transport E params"
  have h: "httpUploadProgress opts st loaded = Inl ExpectedNumberForLoadedProgress"
    by (rule non_number_throws [OF assms(3)])
  have rej: "storeCar E this svc car objectName opts =
               (this', Upload params # fst (deliver opts (up_on_throw ?run) initial_progress pre),
                Inl e')"
    if t: "up_on_throw ?run ExpectedNumberForLoadedProgress = Some e'" for e'
  proof -
    from assms(2) deliver_rejects_at_non_number [where on_throw = "up_on_throw ?run", OF assms(3) t]
    have "storeCar_await opts ?run =
            (fst (deliver opts (up_on_throw ?run) initial_progress pre), Some e')"
      by (simp add: storeCar_await_def)
    with assms(1) show ?thesis
      by (simp add: storeCar_unfold)
  qed
  have swallow: "storeCar_await opts ?run = storeCar_await opts (?run\<lparr>up_events := pre @ post\<rparr>)"
    if t: "up_on_throw ?run ExpectedNumberForLoadedProgress = None"
    using assms(2) deliver_skips_non_number [where on_throw = "up_on_throw ?run", OF assms(3) t]
    by (simp add: storeCar_await_def split: prod.splits option.splits)
  from h rej swallow show ?thesis
    by (simp add: httpUploadProgress_def Let_def)
qed

text \<open>
  An upload reporting \<open>10\<close>, then \<^verbatim>\<open>undefined\<close>, then \<open>20\<close>: once rejecting with the
  listener's exception, once swallowing it.
\<close>

theorem non_numeric_progress_throws_witness:
  "storeCar (sample_env\<lparr>transport := ticks_transport [JNumber 10, JUndefined, JNumber 20]\<rparr>)
      fresh_class sample_service [[1, 2, 3]] ''obj''
      \<lparr>onStoredChunk = True, onComplete = False, maxRetries = None\<rparr>
     = (sample_class, [Upload (sample_params [[1, 2, 3]] ''obj''), StoredChunk (999 / 100)],
        Inl ExpectedNumberForLoadedProgress)
   \<and> storeCar_await \<lparr>onStoredChunk = True, onComplete = False, maxRetries = None\<rparr>
        (swallowing_transport [JNumber 10, JUndefined, JNumber 20]
           (sample_params [[1, 2, 3]] ''obj''))
     = ([StoredChunk (999 / 100), StoredChunk 10], None)"
proof -
  let ?opts = "\<lparr>onStoredChunk = True, onComplete = False, maxRetries = None\<rparr>"
  let ?ticks = "[JNumber 10, JUndefined, JNumber 20]"
  let ?E = "sample_env\<lparr>transport := ticks_transport ?ticks\<rparr>"
  let ?Q = "sample_env\<lparr>transport := swallowing_transport ?ticks\<rparr>"
  let ?params = "sample_params [[1, 2, 3]] ''obj''"
  have b: "storeCar_begin (base64_ascii ?E) fresh_class sample_service [[1, 2, 3]] ''obj'' ?opts
             = (sample_class, Inr ?params)"
    by (rule sample_begin)
  have bq: "storeCar_begin (base64_ascii ?Q) fresh_class sample_service [[1, 2, 3]] ''obj'' ?opts
             = (sample_class, Inr ?params)"
    by (rule sample_begin)
  have ev: "up_events (transport ?E ?params) =
              [HttpUploadProgress (JNumber 10)] @ HttpUploadProgress JUndefined #
              [HttpUploadProgress (JNumber 20), StreamEvent ''end'', StreamEvent ''close'']"
    by (simp add: ticks_transport_def)
  have evq: "up_events (transport ?Q ?params) =
              [HttpUploadProgress (JNumber 10)] @ HttpUploadProgress JUndefined #
              [HttpUploadProgress (JNumber 20), StreamEvent ''end'', StreamEvent ''close'']"
    by (simp add: swallowing_transport_def)
  have nn: "\<forall>n. JUndefined \<noteq> JNumber n"
    by simp
  from non_numeric_progress_throws [OF b ev nn, of initial_progress]
  have r: "storeCar ?E fresh_class sample_service [[1, 2, 3]] ''obj'' ?opts
     = (sample_class, [Upload ?params, StoredChunk (999 / 100)],
        Inl ExpectedNumberForLoadedProgress)"
    by (simp add: ticks_transport_def httpUploadProgress_def initial_progress_def Let_def)
  from non_numeric_progress_throws [OF bq evq nn, of initial_progress]
  have q: "storeCar_await ?opts (swallowing_transport ?ticks ?params)
     = ([StoredChunk (999 / 100), StoredChunk 10], None)"
    by (simp add: swallowing_transport_def storeCar_await_def httpUploadProgress_def
        initial_progress_def Let_def)
  from r q show ?thesis
    by simp
qed

section \<open>storeCar: the completion callback\<close>

text \<open>
  \<^verbatim>\<open>onComplete\<close> is called from one place only, the listener for the
  \<^verbatim>\<open>finish\<close> event of the readable stream. A stream that emits no such event
  leaves it uncalled, whatever the upload does.
\<close>

lemma deliver_no_finish:
  assumes "''finish'' \<notin> set (stream_events es)"
  shows "Completed \<notin> set (fst (deliver opts on_throw st es))"
  using assms
proof (induction es arbitrary: st)
  case Nil
  then show ?case by simp
next
  case (Cons ev es)
  show ?case
  proof (cases ev)
    case (HttpUploadProgress v)
    with Cons.prems have nf: "''finish'' \<notin> set (stream_events es)"
      by simp
    show ?thesis
    proof (cases "httpUploadProgress opts st v")
      case (Inl e)
      with HttpUploadProgress Cons.IH [OF nf, of st] show ?thesis
        by (cases "on_throw e") simp_all
    next
      case (Inr p)
      obtain st' fx where p: "p = (st', fx)"
        by (cases p)
      with Inr have "Completed \<notin> set fx"
        by (cases v) (auto simp: httpUploadProgress_def Let_def split: if_splits)
      moreover obtain fx' r where d: "deliver opts on_throw st' es = (fx', r)"
        by (cases "deliver opts on_throw st' es")
      moreover from Cons.IH [OF nf, of st'] d have "Completed \<notin> set fx'"
        by simp
      ultimately show ?thesis
        using HttpUploadProgress Inr p by simp
    qed
  next
    case (StreamEvent x)
    with Cons.prems have nf: "''finish'' \<notin> set (stream_events es)" and x: "x \<noteq> ''finish''"
      by auto
    obtain fx r where d: "deliver opts on_throw st es = (fx, r)"
      by (cases "deliver opts on_throw st es")
    from Cons.IH [OF nf, of st] d have "Completed \<notin> set fx"
      by simp
    with d StreamEvent x show ?thesis
      by simp
  qed
qed

text \<open>
  C6. The claim: a supplied \<^verbatim>\<open>onComplete\<close> is called exactly once, after all
  parts have succeeded and before the head request. The callback is registered
  on the readable stream for \<^verbatim>\<open>finish\<close>, an event of writable streams; a
  readable stream ends with \<^verbatim>\<open>end\<close> and \<^verbatim>\<open>close\<close>. On a successful upload with
  \<^verbatim>\<open>onComplete\<close> supplied, the effects are the upload and the head request, and
  the callback is not among them.
\<close>

theorem onComplete_never_called:
  "storeCar sample_env fresh_class sample_service [[1, 2, 3]] ''obj''
      \<lparr>onStoredChunk = False, onComplete = True, maxRetries = None\<rparr>
     = (sample_class,
        [Upload (sample_params [[1, 2, 3]] ''obj''),
         HeadObject sample_config (Some ''bucket-a'') ''obj''],
        Inr ''remote-cid'')"
  using sample_storeCar [of sample_transport "[[1, 2, 3]]" "''obj''" False True]
  by (simp add: run_simps sample_env_transport sample_params_def)

section \<open>storeCar: the class object\<close>

lemma begin_b:
  "storeCar_begin dec this service_b car objectName no_options =
     (\<lparr>this_token = Some [''key-b'', ''secret-b'', ''bucket-b''],
       this_bucket = Some ''bucket-b''\<rparr>,
      Inr \<lparr>up_client =
             \<lparr>s3_creds = Some \<lparr>accessKeyId = ''key-b'', secretAccessKey = ''secret-b''\<rparr>,
              s3_endpoint = Some ''https://s3.filebase.com'',
              maxAttempts = Some 5,
              region = Some ''us-east-1'',
              forcePathStyle = Some True\<rparr>,
           up_Bucket = Some ''bucket-b'', up_Key = objectName, up_Body = car,
           up_Metadata = [(''import'', ''car'')], up_queueSize = 4,
           up_leavePartsOnError = False\<rparr>)"
  by (cases this)
     (simp add: storeCar_begin_def resolveConfig_def service_b_def token_service_def
      parseToken_def js_index_def js_or_def js_or_num_def no_options_def
      MAX_STORE_RETRIES_def MAX_CONCURRENT_UPLOADS_def DEFAULT_ENDPOINT_def)

text \<open>
  C8. The claim: calls share no mutable state, and no call can change the
  bucket another call uses. The bucket is kept in the class object. A call
  to \<open>storeCar\<close> for \<^verbatim>\<open>bucket-a\<close> is waiting for its upload when a second call
  to \<open>storeCar\<close>, for \<^verbatim>\<open>bucket-b\<close>, begins: the first call uploaded to
  \<^verbatim>\<open>bucket-a\<close>, and sends its head request, with its own credentials, to
  \<^verbatim>\<open>bucket-b\<close>.
\<close>

theorem head_request_uses_other_calls_bucket:
  "storeCar_during sample_env
      (\<lambda>this. fst (storeCar_begin node_base64_ascii this service_b [[9]] ''objB'' no_options))
      fresh_class sample_service [[1, 2, 3]] ''objA'' no_options
     = (\<lparr>this_token = Some [''key-b'', ''secret-b'', ''bucket-b''],
         this_bucket = Some ''bucket-b''\<rparr>,
        [Upload (sample_params [[1, 2, 3]] ''objA''),
         HeadObject sample_config (Some ''bucket-b'') ''objA''],
        Inr ''remote-cid'')"
proof -
  have b: "storeCar_begin (base64_ascii sample_env) fresh_class sample_service [[1, 2, 3]]
             ''objA'' no_options = (sample_class, Inr (sample_params [[1, 2, 3]] ''objA''))"
    unfolding no_options_def by (rule sample_begin)
  have w: "storeCar_await no_options (transport sample_env (sample_params [[1, 2, 3]] ''objA''))
             = ([], None)"
    by (simp add: run_simps sample_env_def no_options_def sample_params_def)
  have h: "head_object sample_env = sample_head"
    by (simp add: sample_env_def)
  have c: "up_client (sample_params [[1, 2, 3]] ''objA'') = sample_config"
    by (simp add: sample_params_def)
  show ?thesis
    by (simp add: storeCar_during_def b w h c begin_b storeCar_end_def sample_head_def)
qed

section \<open>Encoding: empty input\<close>

lemma fold_size_sum: "fold (\<lambda>f size. size + blob_size f) files n = n + sum_list (map blob_size files)"
  by (induction files arbitrary: n) simp_all

text \<open>
  C3, as stated, fails for directories: \<open>encodeDirectory\<close> on one empty file
  fails with \<^verbatim>\<open>Total size of files should exceed 0\<close> only after the packer has
  run, and the blockstore holds the blocks the packer put.
\<close>

theorem encodeDirectory_writes_before_rejecting:
  "encodeDirectory sample_pack [\<lparr>bytes = [], name = ''empty.txt''\<rparr>] [] =
     ([(''leaf:empty.txt'', []), (''dir'', [])], Inl TotalSizeZero)"
  by (simp add: encodeDirectory_def packCar_def sample_pack_def toImportCandidate_def
      blob_size_def)

text \<open>
  C3, amended. A blob of size zero makes \<open>encodeBlob\<close> fail with \<^verbatim>\<open>Content size
  is 0\<close> before the packer runs: the blockstore is unchanged, and \<open>storeBlob\<close>
  does nothing but close its empty blockstore. Files that sum to zero bytes
  make \<open>encodeDirectory\<close> fail, with the packer's error or with \<^verbatim>\<open>Total size of
  files should exceed 0\<close>, after the packer has run: the blockstore is as the
  packer left it. \<open>storeDirectory\<close> then fails without any request, its only
  effect being to close the blockstore.
\<close>

theorem empty_input_rejected:
  "(blob_size b = 0 \<longrightarrow>
      encodeBlob pk b bs = (bs, Inl ContentSizeZero) \<and>
      storeBlob E this svc b objectName = (this, [BlockstoreClose []], Inl ContentSizeZero))
   \<and> (sum_list (map blob_size files) = 0 \<longrightarrow>
      fst (encodeDirectory pk files bs) =
        fst (pk \<lparr>input = map (\<lambda>f. toImportCandidate (name f) f) files,
                 wrapWithDirectory = True, rawLeaves = False, cidVersion = 0\<rparr> bs) \<and>
      snd (encodeDirectory pk files bs) =
        (case snd (pk \<lparr>input = map (\<lambda>f. toImportCandidate (name f) f) files,
                       wrapWithDirectory = True, rawLeaves = False, cidVersion = 0\<rparr> bs) of
           Inl e \<Rightarrow> Inl e
         | Inr r \<Rightarrow> Inl TotalSizeZero) \<and>
      (\<exists>bs' e. storeDirectory E this svc files objectName = (this, [BlockstoreClose bs'], Inl e)))"
  by (auto simp: encodeBlob_def storeBlob_def encodeDirectory_def storeDirectory_def packCar_def
      fold_size_sum split: prod.splits sum.splits)

text \<open>The empty blob and the directory of one empty file.\<close>

theorem empty_input_rejected_witness:
  "encodeBlob sample_pack \<lparr>bytes = []\<rparr> [] = ([], Inl ContentSizeZero)
   \<and> storeBlob sample_env fresh_class sample_service \<lparr>bytes = []\<rparr> None
       = (fresh_class, [BlockstoreClose []], Inl ContentSizeZero)
   \<and> snd (encodeDirectory sample_pack [\<lparr>bytes = [], name = ''empty.txt''\<rparr>] [])
       = Inl TotalSizeZero
   \<and> (\<exists>bs' e. storeDirectory sample_env fresh_class sample_service
                 [\<lparr>bytes = [], name = ''empty.txt''\<rparr>] None
               = (fresh_class, [BlockstoreClose bs'], Inl e))"
  using empty_input_rejected
    [of "\<lparr>bytes = []\<rparr>" sample_pack "[]" sample_env fresh_class sample_service None
        "[\<lparr>bytes = [], name = ''empty.txt''\<rparr>]"]
  by (simp add: blob_size_def sample_pack_def)

section \<open>storeBlob and storeDirectory: the value returned\<close>

text \<open>
  C10. A value returned by \<open>storeBlob\<close> is the value \<open>storeCar\<close> returned, which
  is the \<^verbatim>\<open>cid\<close> tag of the head answer for the object key. A value returned by
  \<open>storeDirectory\<close> is the root computed by the packer; \<open>storeCar\<close> did return
  a value, which is dropped.
\<close>

theorem storeBlob_remote_storeDirectory_local:
  "(\<forall>v. snd (snd (storeBlob E this svc b objectName)) = Inr v \<longrightarrow>
      (\<exists>bs packed this' fx.
          encodeBlob (pack E) b [] = (bs, Inr packed) \<and>
          storeCar E this svc (p_car packed) (js_or objectName (p_cid packed)) no_options
            = (this', fx, Inr v) \<and>
          (\<exists>cfg bkt h. head_object E cfg bkt (js_or objectName (p_cid packed)) = Inr h \<and>
                       meta_cid h = Some v)))
   \<and> (\<forall>v. snd (snd (storeDirectory E this svc filesSource objectName)) = Inr v \<longrightarrow>
      (\<exists>bs packed this' fx remote.
          encodeDirectory (pack E) filesSource [] = (bs, Inr packed) \<and>
          storeCar E this svc (p_car packed) (js_or objectName (p_cid packed)) no_options
            = (this', fx, Inr remote) \<and>
          v = p_cid packed))"
proof (intro conjI allI impI)
  fix v
  assume "snd (snd (storeBlob E this svc b objectName)) = Inr v"
  then obtain bs packed this' fx where
    enc: "encodeBlob (pack E) b [] = (bs, Inr packed)" and
    st: "storeCar E this svc (p_car packed) (js_or objectName (p_cid packed)) no_options
          = (this', fx, Inr v)"
    by (auto simp: storeBlob_def split: prod.splits sum.splits)
  from storeCar_Inr_remote [OF st] enc st
  show "\<exists>bs packed this' fx.
          encodeBlob (pack E) b [] = (bs, Inr packed) \<and>
          storeCar E this svc (p_car packed) (js_or objectName (p_cid packed)) no_options
            = (this', fx, Inr v) \<and>
          (\<exists>cfg bkt h. head_object E cfg bkt (js_or objectName (p_cid packed)) = Inr h \<and>
                       meta_cid h = Some v)"
    by blast
next
  fix v
  assume "snd (snd (storeDirectory E this svc filesSource objectName)) = Inr v"
  then show "\<exists>bs packed this' fx remote.
          encodeDirectory (pack E) filesSource [] = (bs, Inr packed) \<and>
          storeCar E this svc (p_car packed) (js_or objectName (p_cid packed)) no_options
            = (this', fx, Inr remote) \<and>
          v = p_cid packed"
    by (auto simp: storeDirectory_def Let_def split: prod.splits sum.splits)
qed

text \<open>
  With a remote store that answers \<^verbatim>\<open>remote-cid\<close> and a packer whose directory
  root is \<^verbatim>\<open>dir\<close>, \<open>storeBlob\<close> returns the former and \<open>storeDirectory\<close> the
  latter.
\<close>

theorem storeBlob_remote_storeDirectory_local_witness:
  "snd (snd (storeBlob sample_env fresh_class sample_service \<lparr>bytes = [1, 2, 3]\<rparr> None))
     = Inr ''remote-cid''
   \<and> (\<exists>bs packed. encodeBlob (pack sample_env) \<lparr>bytes = [1, 2, 3]\<rparr> [] = (bs, Inr packed) \<and>
        (\<exists>cfg bkt h. head_object sample_env cfg bkt (js_or None (p_cid packed)) = Inr h \<and>
                     meta_cid h = Some ''remote-cid''))
   \<and> snd (snd (storeDirectory sample_env fresh_class sample_service
                  [\<lparr>bytes = [1, 2, 3], name = ''a.txt''\<rparr>] None))
     = Inr ''dir''
   \<and> (\<exists>bs packed remote this' fx.
         encodeDirectory (pack sample_env) [\<lparr>bytes = [1, 2, 3], name = ''a.txt''\<rparr>] []
           = (bs, Inr packed) \<and>
         storeCar sample_env fresh_class sample_service (p_car packed) (js_or None (p_cid packed))
           no_options = (this', fx, Inr remote) \<and>
         ''dir'' = p_cid packed)"
proof -
  have eb: "encodeBlob sample_pack \<lparr>bytes = [1, 2, 3]\<rparr> [] =
      ([(''leaf:blob'', [1, 2, 3])],
       Inr \<lparr>p_cid = ''leaf:blob'', p_carReader = (1, [''leaf:blob'']), p_car = [[1, 2, 3]]\<rparr>)"
    by (simp add: encodeBlob_def packCar_def sample_pack_def toImportCandidate_def blob_size_def)
  have ed: "encodeDirectory sample_pack [\<lparr>bytes = [1, 2, 3], name = ''a.txt''\<rparr>] [] =
      ([(''leaf:a.txt'', [1, 2, 3]), (''dir'', [])],
       Inr \<lparr>p_cid = ''dir'', p_carReader = (1, [''dir'']), p_car = [[1, 2, 3], []]\<rparr>)"
    by (simp add: encodeDirectory_def packCar_def sample_pack_def toImportCandidate_def
        blob_size_def)
  have sc: "storeCar sample_env fresh_class sample_service car key no_options =
      (sample_class,
       [Upload (sample_params car key), HeadObject sample_config (Some ''bucket-a'') key],
       Inr ''remote-cid'')" for car key
    using sample_storeCar [of sample_transport car key False False]
    by (simp add: run_simps sample_env_transport no_options_def)
  have pk: "pack sample_env = sample_pack"
    by (simp add: sample_env_def)
  have b: "snd (snd (storeBlob sample_env fresh_class sample_service \<lparr>bytes = [1, 2, 3]\<rparr> None))
     = Inr ''remote-cid''"
    by (simp add: storeBlob_def pk eb sc)
  have d: "snd (snd (storeDirectory sample_env fresh_class sample_service
                  [\<lparr>bytes = [1, 2, 3], name = ''a.txt''\<rparr>] None)) = Inr ''dir''"
    by (simp add: storeDirectory_def pk ed sc)
  from storeBlob_remote_storeDirectory_local
    [of sample_env fresh_class sample_service "\<lparr>bytes = [1, 2, 3]\<rparr>" None
        "[\<lparr>bytes = [1, 2, 3], name = ''a.txt''\<rparr>]"] b d
  show ?thesis
    by simp blast
qed

end
